theory Spec2Isabelle
  imports
    Complex_Main
    "HOL-Library.Char_ord"
    "HOL-Library.List_Lexorder"
    "HOL-Library.Sublist"
begin

section \<open>The Vans dashboard (app.py) as HOL functions\<close>

text \<open>
  The dashboard is one Python script: it loads every sheet of a workbook into one table,
  filters the table from sidebar widgets, shows four key metrics, builds five charts and
  exports a PDF snapshot. The script's own logic is modelled here; the libraries it
  calls (pandas, Streamlit, plotly, reportlab) are modelled only as far as the script
  depends on them, and each such place says what is taken from the library.

  Text is modelled as \<open>string\<close> over ASCII characters. An exception is a value of
  \<open>py_error\<close> on the left of a sum.
\<close>

datatype py_error = KeyError | TypeError | ValueError | InvalidIndexError

subsection \<open>Python string operations used by the script\<close>

text \<open>
  \<open>str.isspace\<close> on an ASCII character: tab, line feed, vertical tab, form feed,
  carriage return (codes 9 to 13), the four separators (28 to 31) and the space (32).
\<close>

definition py_isspace :: "char \<Rightarrow> bool" where
  "py_isspace c = (let n = (of_char c :: nat) in (9 \<le> n \<and> n \<le> 13) \<or> (28 \<le> n \<and> n \<le> 32))"

text \<open>\<open>s.strip()\<close>: drop leading and trailing whitespace.\<close>

definition py_strip :: "string \<Rightarrow> string" where
  "py_strip s = rev (dropWhile py_isspace (rev (dropWhile py_isspace s)))"

text \<open>\<open>sep.join(parts)\<close>.\<close>

fun py_join :: "string \<Rightarrow> string list \<Rightarrow> string" where
  "py_join sep [] = []"
| "py_join sep [x] = x"
| "py_join sep (x # y # ys) = x @ sep @ py_join sep (y # ys)"

text \<open>
  \<open>c.replace("Unnamed: ", "")\<close>: every occurrence of the pattern, scanning from the
  left without overlap, is removed. The pattern is a parameter; the script only ever
  passes the non-empty literal, and for an empty pattern (where Python would insert the
  replacement between characters, here the empty string) the text is returned as it is.
\<close>

function py_remove_all :: "string \<Rightarrow> string \<Rightarrow> string" where
  "py_remove_all pat [] = []"
| "py_remove_all pat (c # cs) =
     (if pat \<noteq> [] \<and> prefix pat (c # cs)
      then py_remove_all pat (drop (length pat - 1) cs)
      else c # py_remove_all pat cs)"
  by pat_completeness auto
termination
  by (relation "measure (\<lambda>(pat, s). length s)") auto

text \<open>Decimal digits of a natural number, and \<open>str(n)\<close> for a Python int.\<close>

fun digits_of_nat :: "nat \<Rightarrow> string" where
  "digits_of_nat n =
     (if n < 10 then [char_of (48 + n)]
      else digits_of_nat (n div 10) @ [char_of (48 + n mod 10)])"

definition py_str_int :: "int \<Rightarrow> string" where
  "py_str_int i = (if i < 0 then CHR ''-'' # digits_of_nat (nat (- i)) else digits_of_nat (nat i))"

subsection \<open>Header labels and the column normalizer\<close>

text \<open>
  A header cell read by pandas is a string, an integer or the float NaN (an empty
  header cell). Other floats and dates in a header are not modelled. A column label is
  one such part (single-row header) or a tuple or list of parts (multi-row header).
\<close>

datatype part = PStr string | PInt int | PNaN

datatype label = LTuple "part list" | LList "part list" | LPart part

text \<open>\<open>str(x)\<close> of a header part.\<close>

fun py_str :: "part \<Rightarrow> string" where
  "py_str (PStr s) = s"
| "py_str (PInt i) = py_str_int i"
| "py_str PNaN = ''nan''"

text \<open>
  The body of the loop of \<open>_flatten_columns\<close> for one label:
  \<^verbatim>\<open>
  if isinstance(col, tuple) or isinstance(col, list):
      parts = [str(x) for x in col if str(x) != "nan"]
      flattened.append(" - ".join(parts).strip())
  else:
      flattened.append(str(col).strip())
  \<close>
\<close>

definition kept_parts :: "part list \<Rightarrow> string list" where
  "kept_parts col = map py_str (filter (\<lambda>x. py_str x \<noteq> ''nan'') col)"

fun flatten_column :: "label \<Rightarrow> string" where
  "flatten_column (LTuple col) = py_strip (py_join '' - '' (kept_parts col))"
| "flatten_column (LList col) = py_strip (py_join '' - '' (kept_parts col))"
| "flatten_column (LPart col) = py_strip (py_str col)"

text \<open>The loop itself, with the list \<open>flattened\<close> it appends to.\<close>

fun flatten_loop :: "label list \<Rightarrow> string list \<Rightarrow> string list" where
  "flatten_loop [] flattened = flattened"
| "flatten_loop (col # columns) flattened = flatten_loop columns (flattened @ [flatten_column col])"

definition flatten_columns :: "label list \<Rightarrow> string list" where
  "flatten_columns columns = flatten_loop columns []"


text \<open>
  The spec's reading of a composite label, for comparison with \<open>flatten_column\<close>:
  the string forms of the parts, without those equal to the missing-value marker,
  joined with \<open>" - "\<close>.
\<close>

definition spec_joined :: "part list \<Rightarrow> string" where
  "spec_joined col = py_join '' - '' (filter (\<lambda>s. s \<noteq> ''nan'') (map py_str col))"

text \<open>
  The spec's "stringified original label" is Python's \<open>str(col)\<close>. For a tuple or list
  that is the \<open>repr\<close> of each part, separated by \<open>", "\<close>, in round or square brackets,
  with a trailing comma in a one-element tuple. \<open>repr\<close> of a string quotes it (double
  quotes when it holds a single quote and no double quote) and escapes the quote, the
  backslash and the control characters.
\<close>

definition hex_digit :: "nat \<Rightarrow> char" where
  "hex_digit n = (if n < 10 then char_of (48 + n) else char_of (87 + n))"

definition repr_char :: "char \<Rightarrow> char \<Rightarrow> string" where
  "repr_char quote c =
     (let n = (of_char c :: nat) in
      if c = quote \<or> c = CHR 0x5C then [CHR 0x5C, c]
      else if c = CHR 0x09 then [CHR 0x5C, CHR ''t'']
      else if c = CHR 0x0A then [CHR 0x5C, CHR ''n'']
      else if c = CHR 0x0D then [CHR 0x5C, CHR ''r'']
      else if n < 32 \<or> n = 127 then [CHR 0x5C, CHR ''x'', hex_digit (n div 16), hex_digit (n mod 16)]
      else [c])"

definition py_repr_str :: "string \<Rightarrow> string" where
  "py_repr_str s =
     (let quote = (if CHR 0x27 \<in> set s \<and> CHR 0x22 \<notin> set s then CHR 0x22 else CHR 0x27)
      in [quote] @ concat (map (repr_char quote) s) @ [quote])"

fun py_repr :: "part \<Rightarrow> string" where
  "py_repr (PStr s) = py_repr_str s"
| "py_repr (PInt i) = py_str_int i"
| "py_repr PNaN = ''nan''"

fun py_str_label :: "label \<Rightarrow> string" where
  "py_str_label (LTuple [x]) = ''('' @ py_repr x @ '',)''"
| "py_str_label (LTuple col) = ''('' @ py_join '', '' (map py_repr col) @ '')''"
| "py_str_label (LList col) = ''['' @ py_join '', '' (map py_repr col) @ '']''"
| "py_str_label (LPart x) = py_str x"

subsection \<open>Tables\<close>

text \<open>
  A cell of a pandas table is a string, a number or the missing value NaN. Numbers are
  exact rationals: the rounding of binary floating point is not modelled.

  A table (DataFrame) has its column labels in order and its rows in order; a row is
  its index label together with its cells, keyed by column label. A column that has no
  entry in a row reads as NaN there, which is how pandas fills the columns a sheet
  lacks when it concatenates. The column labels of a table are taken to be pairwise
  distinct, so that \<open>df[c]\<close> is one column.
\<close>

datatype cell = Str string | Num rat | NaN

type_synonym row = "(string \<times> cell) list"

record frame =
  columns :: "string list"
  rows :: "(nat \<times> row) list"

definition cell_of :: "row \<Rightarrow> string \<Rightarrow> cell" where
  "cell_of r c = (case map_of r c of Some v \<Rightarrow> v | None \<Rightarrow> NaN)"

text \<open>\<open>df[c]\<close>, the values of one column in row order.\<close>

definition series :: "frame \<Rightarrow> string \<Rightarrow> cell list" where
  "series df c = map (\<lambda>ir. cell_of (snd ir) c) (rows df)"

text \<open>\<open>df[mask]\<close> for a mask computed row by row: the rows keep their index labels.\<close>

definition select_rows :: "(row \<Rightarrow> bool) \<Rightarrow> frame \<Rightarrow> frame" where
  "select_rows p df = df\<lparr>rows := filter (\<lambda>ir. p (snd ir)) (rows df)\<rparr>"

text \<open>\<open>s.dropna()\<close> and \<open>s.unique()\<close> (distinct values in order of first appearance).\<close>

definition dropna :: "cell list \<Rightarrow> cell list" where
  "dropna s = filter (\<lambda>v. v \<noteq> NaN) s"

definition unique :: "'a list \<Rightarrow> 'a list" where
  "unique s = rev (remdups (rev s))"

subsection \<open>The dataset loader\<close>

text \<open>
  \<open>pd.read_excel\<close> is the library's: a sheet is modelled by what the two reads the
  loader may make of it return, the one with a three-row header and the one with a
  one-row header, each an exception or the header labels with the data rows.
\<close>

record raw_sheet =
  header :: "label list"
  body :: "cell list list"

record sheet =
  read_header_012 :: "py_error + raw_sheet"
  read_header_0 :: "py_error + raw_sheet"

text \<open>
  \<^verbatim>\<open>df.columns = _flatten_columns(df.columns.values)\<close> followed by
  \<^verbatim>\<open>df.columns = [c.replace("Unnamed: ", "").strip() for c in df.columns]\<close>;
  a freshly read sheet is indexed 0, 1, 2, ...
\<close>

definition clean_columns :: "label list \<Rightarrow> string list" where
  "clean_columns labels = map (\<lambda>c. py_strip (py_remove_all ''Unnamed: '' c)) (flatten_columns labels)"

definition named_frame :: "raw_sheet \<Rightarrow> frame" where
  "named_frame raw =
     (let cols = clean_columns (header raw)
      in \<lparr>columns = cols, rows = zip [0..<length (body raw)] (map (zip cols) (body raw))\<rparr>)"

text \<open>The \<open>try\<close>/\<open>except Exception\<close> of the loop body: the second read's exception escapes.\<close>

definition sheet_frame :: "sheet \<Rightarrow> py_error + frame" where
  "sheet_frame sh =
     (case read_header_012 sh of
        Inr raw \<Rightarrow> Inr (named_frame raw)
      | Inl _ \<Rightarrow> (case read_header_0 sh of
                    Inr raw \<Rightarrow> Inr (named_frame raw)
                  | Inl e \<Rightarrow> Inl e))"

text \<open>The number of data rows of a sheet, as the loader reads it (0 when neither read succeeds).\<close>

definition sheet_row_count :: "sheet \<Rightarrow> nat" where
  "sheet_row_count sh = (case sheet_frame sh of Inr df \<Rightarrow> length (rows df) | Inl e \<Rightarrow> 0)"

fun load_loop :: "sheet list \<Rightarrow> frame list \<Rightarrow> py_error + frame list" where
  "load_loop [] frames = Inr frames"
| "load_loop (sh # sheets) frames =
     (case sheet_frame sh of
        Inl e \<Rightarrow> Inl e
      | Inr df \<Rightarrow> load_loop sheets (frames @ [df]))"

text \<open>
  \<open>pd.concat(frames, ignore_index=True)\<close>: no frames is a ValueError. When every frame
  has the same column labels, these are the labels of the result. Otherwise pandas
  aligns every frame to the union of the labels (in order of first appearance), and
  that raises InvalidIndexError when the labels of some frame are not unique. The
  rows are all rows in order, indexed anew from 0.
\<close>

definition pd_concat :: "frame list \<Rightarrow> py_error + frame" where
  "pd_concat frames =
     (case frames of
        [] \<Rightarrow> Inl ValueError
      | df # dfs \<Rightarrow>
          (let rs = concat (map (\<lambda>d. map snd (rows d)) frames)
           in if list_all (\<lambda>d. columns d = columns df) dfs
              then Inr \<lparr>columns = columns df, rows = zip [0..<length rs] rs\<rparr>
              else if list_ex (\<lambda>d. \<not> distinct (columns d)) frames
              then Inl InvalidIndexError
              else Inr \<lparr>columns = unique (concat (map columns frames)),
                        rows = zip [0..<length rs] rs\<rparr>))"

definition load_excel_any :: "sheet list \<Rightarrow> py_error + frame" where
  "load_excel_any sheet_names =
     (case load_loop sheet_names [] of
        Inl e \<Rightarrow> Inl e
      | Inr frames \<Rightarrow> pd_concat frames)"


subsection \<open>The global filters\<close>

text \<open>
  \<^verbatim>\<open>sorted([v for v in df_all[c].dropna().unique()])\<close>: the distinct non-missing values
  of a column, sorted. Strings sort among themselves by code point, numbers among
  themselves; comparing a string with a number is a TypeError.
\<close>

definition sorted_values :: "cell list \<Rightarrow> py_error + cell list" where
  "sorted_values s =
     (let vs = unique (dropna s);
          strs = [x. Str x \<leftarrow> vs];
          nums = [x. Num x \<leftarrow> vs]
      in if strs = [] then Inr (map Num (sort nums))
         else if nums = [] then Inr (map Str (sort strs))
         else Inl TypeError)"

text \<open>
  The sidebar widgets are Streamlit's. What the user has chosen is what the widget
  returns: \<open>multiselect\<close> gets the column and the offered options (which are also its
  default), \<open>slider\<close> the bounds (which are also its default range). A widget that
  rejects its arguments is Streamlit's concern and is not modelled.
\<close>

record widgets =
  multiselect :: "string \<Rightarrow> cell list \<Rightarrow> cell list"
  slider :: "int \<Rightarrow> int \<Rightarrow> int \<times> int"

text \<open>The user has touched nothing: every widget returns its default.\<close>

definition default_widgets :: widgets where
  "default_widgets = \<lparr>multiselect = (\<lambda>c vals. vals), slider = (\<lambda>min_age max_age. (min_age, max_age))\<rparr>"

text \<open>
  \<^verbatim>\<open>
  for c in ["Company", "Employment Status", "Areas Covered"]:
      if c in df_all.columns:
          vals = sorted([v for v in df_all[c].dropna().unique()])
          sel = st.multiselect(f"{c} filter", options=vals, default=vals)
          df_view = df_view[df_view[c].isin(sel)]
  \<close>
\<close>

definition filter_columns :: "string list" where
  "filter_columns = [''Company'', ''Employment Status'', ''Areas Covered'']"

fun categorical_filters :: "widgets \<Rightarrow> frame \<Rightarrow> string list \<Rightarrow> frame \<Rightarrow> py_error + frame" where
  "categorical_filters ui df_all [] df_view = Inr df_view"
| "categorical_filters ui df_all (c # cs) df_view =
     (if c \<in> set (columns df_all) then
        (case sorted_values (series df_all c) of
           Inl e \<Rightarrow> Inl e
         | Inr vals \<Rightarrow>
             categorical_filters ui df_all cs
               (select_rows (\<lambda>r. cell_of r c \<in> set (multiselect ui c vals)) df_view))
      else categorical_filters ui df_all cs df_view)"

text \<open>
  \<open>s.min()\<close> and \<open>s.max()\<close> skip missing values and give NaN when nothing is left.
  A string in the age column is treated as a TypeError of the reduction (pandas
  raises there when strings meet numbers or NaN).
\<close>

definition series_min :: "cell list \<Rightarrow> py_error + cell" where
  "series_min s =
     (let vs = dropna s; nums = [x. Num x \<leftarrow> vs]
      in if length nums < length vs then Inl TypeError
         else (case nums of [] \<Rightarrow> Inr NaN | x # xs \<Rightarrow> Inr (Num (fold min xs x))))"

definition series_max :: "cell list \<Rightarrow> py_error + cell" where
  "series_max s =
     (let vs = dropna s; nums = [x. Num x \<leftarrow> vs]
      in if length nums < length vs then Inl TypeError
         else (case nums of [] \<Rightarrow> Inr NaN | x # xs \<Rightarrow> Inr (Num (fold max xs x))))"

text \<open>\<open>int(x)\<close>: a number is truncated towards zero; NaN is a ValueError.\<close>

fun py_int :: "cell \<Rightarrow> py_error + int" where
  "py_int (Num x) = Inr (if 0 \<le> x then \<lfloor>x\<rfloor> else \<lceil>x\<rceil>)"
| "py_int NaN = Inl ValueError"
| "py_int (Str s) = Inl ValueError"

text \<open>
  \<open>s.between(left, right)\<close>, both ends included: false on NaN, a TypeError on a
  string.
\<close>

fun between :: "int \<Rightarrow> int \<Rightarrow> cell \<Rightarrow> bool" where
  "between left right (Num x) = (of_int left \<le> x \<and> x \<le> of_int right)"
| "between left right v = False"

fun is_str :: "cell \<Rightarrow> bool" where
  "is_str (Str s) = True"
| "is_str v = False"

definition age_column :: string where
  "age_column = ''Age (Years)''"

text \<open>
  \<^verbatim>\<open>
  if "Age (Years)" in df_all.columns:
      min_age, max_age = int(df_all["Age (Years)"].min()), int(df_all["Age (Years)"].max())
      age_range = st.slider("Age Range", min_age, max_age, (min_age, max_age))
      df_view = df_view[df_view["Age (Years)"].between(age_range[0], age_range[1])]
  \<close>
\<close>

definition age_bounds :: "frame \<Rightarrow> py_error + int \<times> int" where
  "age_bounds df_all =
     (case series_min (series df_all age_column) of
        Inl e \<Rightarrow> Inl e
      | Inr lo \<Rightarrow>
     (case py_int lo of
        Inl e \<Rightarrow> Inl e
      | Inr min_age \<Rightarrow>
     (case series_max (series df_all age_column) of
        Inl e \<Rightarrow> Inl e
      | Inr hi \<Rightarrow>
     (case py_int hi of
        Inl e \<Rightarrow> Inl e
      | Inr max_age \<Rightarrow> Inr (min_age, max_age)))))"

definition age_filter :: "widgets \<Rightarrow> frame \<Rightarrow> frame \<Rightarrow> py_error + frame" where
  "age_filter ui df_all df_view =
     (if age_column \<in> set (columns df_all) then
        (case age_bounds df_all of
           Inl e \<Rightarrow> Inl e
         | Inr (min_age, max_age) \<Rightarrow>
             (let age_range = slider ui min_age max_age
              in if list_ex is_str (series df_view age_column) then Inl TypeError
                 else Inr (select_rows
                            (\<lambda>r. between (fst age_range) (snd age_range) (cell_of r age_column))
                            df_view)))
      else Inr df_view)"

text \<open>The whole sidebar block, starting from \<open>df_view = df_all.copy()\<close>.\<close>

definition global_filters :: "widgets \<Rightarrow> frame \<Rightarrow> py_error + frame" where
  "global_filters ui df_all =
     (case categorical_filters ui df_all filter_columns df_all of
        Inl e \<Rightarrow> Inl e
      | Inr df_view \<Rightarrow> age_filter ui df_all df_view)"

subsection \<open>The key metrics\<close>

text \<open>
  A metric is its label and its value. How a number is brought to text is kept as a
  constructor, not computed: \<open>Round1 m\<close> is \<open>round(m, 1)\<close>, \<open>Percent1 p\<close> is
  \<open>f"{p:.1f}%"\<close>, \<open>ThousandsEGP m\<close> is \<open>f"{m:,.0f} EGP"\<close>, \<open>Plain v\<close> is the cell as it
  is. A number is \<open>None\<close> when it is NaN.
\<close>

datatype shown = Round1 "rat option" | Percent1 "rat option" | ThousandsEGP "rat option" | Plain cell

type_synonym metric = "string \<times> shown"

text \<open>\<open>s.mean()\<close>: the mean of the non-missing values, NaN when there is none; a string is a TypeError.\<close>

definition series_mean :: "cell list \<Rightarrow> py_error + rat option" where
  "series_mean s =
     (let vs = dropna s; nums = [x. Num x \<leftarrow> vs]
      in if length nums < length vs then Inl TypeError
         else if nums = [] then Inr None
         else Inr (Some (sum_list nums / of_nat (length nums))))"

text \<open>\<open>s.eq("Yes").mean()*100\<close>: the mean of a boolean column counts every row.\<close>

definition yes_percentage :: "cell list \<Rightarrow> rat option" where
  "yes_percentage s =
     (if s = [] then None
      else Some (of_nat (length (filter (\<lambda>v. v = Str ''Yes'') s)) / of_nat (length s) * 100))"

text \<open>
  \<open>s.mode()\<close>: the most frequent non-missing values. pandas sorts them when they
  compare (all strings, or all numbers) and leaves them in order of first appearance
  when they do not. The result of \<open>mode\<close> is indexed from 0, and \<open>[0]\<close> on an empty
  result is a KeyError.
\<close>

definition series_mode :: "cell list \<Rightarrow> cell list" where
  "series_mode s =
     (let vs = dropna s;
          keys = unique vs;
          top = fold max (map (count_list vs) keys) 0;
          modes = filter (\<lambda>k. count_list vs k = top) keys;
          strs = [x. Str x \<leftarrow> modes];
          nums = [x. Num x \<leftarrow> modes]
      in if strs = [] then map Num (sort nums)
         else if nums = [] then map Str (sort strs)
         else modes)"

definition item0 :: "cell list \<Rightarrow> py_error + cell" where
  "item0 s = (case s of [] \<Rightarrow> Inl KeyError | v # _ \<Rightarrow> Inr v)"

text \<open>
  The four metrics, each behind its \<open>if ... in df_view.columns\<close>. A metric that is not
  rendered contributes no entry.
\<close>

definition avg_deliveries :: "frame \<Rightarrow> py_error + metric list" where
  "avg_deliveries df_view =
     (if ''Deliveries per day'' \<in> set (columns df_view) then
        (case series_mean (series df_view ''Deliveries per day'') of
           Inl e \<Rightarrow> Inl e
         | Inr m \<Rightarrow> Inr [(''Avg Deliveries/day'', Round1 m)])
      else Inr [])"

definition pct_insurance :: "frame \<Rightarrow> py_error + metric list" where
  "pct_insurance df_view =
     (if ''Medical Insurance'' \<in> set (columns df_view) then
        Inr [(''% with Medical Insurance'', Percent1 (yes_percentage (series df_view ''Medical Insurance'')))]
      else Inr [])"

definition avg_net_income :: "frame \<Rightarrow> py_error + metric list" where
  "avg_net_income df_view =
     (if ''Net Income (Gross - All Expenses) (EGP)'' \<in> set (columns df_view) then
        (case series_mean (series df_view ''Net Income (Gross - All Expenses) (EGP)'') of
           Inl e \<Rightarrow> Inl e
         | Inr m \<Rightarrow> Inr [(''Avg Net Income'', ThousandsEGP m)])
      else Inr [])"

text \<open>
  \<^verbatim>\<open>mode = df_view["Employment Status"].mode()[0] if not df_view["Employment Status"].empty else "N/A"\<close>
\<close>

definition employment_mode :: "frame \<Rightarrow> py_error + cell" where
  "employment_mode df_view =
     (if series df_view ''Employment Status'' \<noteq> []
      then item0 (series_mode (series df_view ''Employment Status''))
      else Inr (Str ''N/A''))"

definition most_common_employment :: "frame \<Rightarrow> py_error + metric list" where
  "most_common_employment df_view =
     (if ''Employment Status'' \<in> set (columns df_view) then
        (case employment_mode df_view of
           Inl e \<Rightarrow> Inl e
         | Inr mode \<Rightarrow> Inr [(''Most Common Employment'', Plain mode)])
      else Inr [])"

text \<open>Statements run one after the other: the first exception ends the run.\<close>

definition and_then :: "py_error + 'a list \<Rightarrow> py_error + 'a list \<Rightarrow> py_error + 'a list" where
  "and_then first rest =
     (case first of
        Inl e \<Rightarrow> Inl e
      | Inr xs \<Rightarrow> (case rest of Inl e \<Rightarrow> Inl e | Inr ys \<Rightarrow> Inr (xs @ ys)))"

definition kpi_metrics :: "frame \<Rightarrow> py_error + metric list" where
  "kpi_metrics df_view =
     and_then (avg_deliveries df_view)
       (and_then (pct_insurance df_view)
         (and_then (avg_net_income df_view) (most_common_employment df_view)))"

subsection \<open>The charts\<close>

text \<open>
  The figures are plotly's. A chart is kept as the file name under which the script
  retains it, its kind and the columns of the view it is drawn from.
\<close>

datatype chart_kind = Pie | GroupedBar | Histogram | Box | StackedBar

record chart =
  fname :: string
  kind :: chart_kind
  reads :: "string list"

definition expense_columns :: "string list" where
  "expense_columns =
     [''Fuel Expenses (EGP)'', ''Maintenance Costs (EGP)'', ''Financing/Lease (EGP)'',
      ''Other Expenses (licenses, permits, fines, etc....)'']"

definition pie_chart :: "frame \<Rightarrow> py_error + chart list" where
  "pie_chart df_view =
     (if ''Employment Status'' \<in> set (columns df_view)
      then Inr [\<lparr>fname = ''pie.png'', kind = Pie, reads = [''Employment Status'']\<rparr>]
      else Inr [])"

definition deliveries_chart :: "frame \<Rightarrow> py_error + chart list" where
  "deliveries_chart df_view =
     (if ''Company'' \<in> set (columns df_view) \<and> ''Deliveries per day'' \<in> set (columns df_view)
      then Inr [\<lparr>fname = ''deliveries.png'', kind = GroupedBar, reads = [''Company'', ''Deliveries per day'']\<rparr>]
      else Inr [])"

definition age_chart :: "frame \<Rightarrow> py_error + chart list" where
  "age_chart df_view =
     (if ''Age (Years)'' \<in> set (columns df_view)
      then Inr [\<lparr>fname = ''age.png'', kind = Histogram, reads = [''Age (Years)'']\<rparr>]
      else Inr [])"

definition income_chart :: "frame \<Rightarrow> py_error + chart list" where
  "income_chart df_view =
     (if ''Net Income (Gross - All Expenses) (EGP)'' \<in> set (columns df_view)
         \<and> ''Employment Status'' \<in> set (columns df_view)
      then Inr [\<lparr>fname = ''income.png'', kind = Box,
                 reads = [''Employment Status'', ''Net Income (Gross - All Expenses) (EGP)'']\<rparr>]
      else Inr [])"

text \<open>
  \<^verbatim>\<open>
  if "Fuel Expenses (EGP)" in df_view.columns and "Company" in df_view.columns:
      df_exp = df_view.groupby("Company")[[<the four expense columns>]].mean().reset_index()
  \<close>
  Selecting a list of columns from the grouped view is a KeyError when one of them is
  not a column of the view.
\<close>

definition expenses_chart :: "frame \<Rightarrow> py_error + chart list" where
  "expenses_chart df_view =
     (if ''Fuel Expenses (EGP)'' \<in> set (columns df_view) \<and> ''Company'' \<in> set (columns df_view)
      then (if list_all (\<lambda>c. c \<in> set (columns df_view)) expense_columns
            then Inr [\<lparr>fname = ''expenses.png'', kind = StackedBar, reads = ''Company'' # expense_columns\<rparr>]
            else Inl KeyError)
      else Inr [])"

definition visual_analytics :: "frame \<Rightarrow> py_error + chart list" where
  "visual_analytics df_view =
     and_then (pie_chart df_view)
       (and_then (deliveries_chart df_view)
         (and_then (age_chart df_view)
           (and_then (income_chart df_view) (expenses_chart df_view))))"

subsection \<open>The PDF export\<close>

text \<open>
  The metric paragraphs of the exported document, under the script's comment
  \<open># KPIs\<close>: each is the label, \<open>": "\<close> and the value, kept here as label and value.
\<close>

definition pdf_kpis :: "frame \<Rightarrow> py_error + metric list" where
  "pdf_kpis df_view =
     and_then (avg_deliveries df_view)
       (and_then (pct_insurance df_view) (avg_net_income df_view))"

subsection \<open>A small table to evaluate on\<close>

definition survey_table :: frame where
  "survey_table =
     \<lparr>columns = [''Company'', ''Employment Status'', ''Age (Years)'', ''Medical Insurance''],
      rows =
        [(0, [(''Company'', Str ''A''), (''Employment Status'', Str ''Full-time''),
              (''Age (Years)'', Num 30), (''Medical Insurance'', Str ''Yes'')]),
         (1, [(''Company'', Str ''B''), (''Employment Status'', Str ''Part-time''),
              (''Age (Years)'', Num 45), (''Medical Insurance'', Str ''Yes'')]),
         (2, [(''Company'', NaN), (''Employment Status'', Str ''Full-time''),
              (''Age (Years)'', Num 22), (''Medical Insurance'', Str ''No'')]),
         (3, [(''Company'', Str ''A''), (''Employment Status'', Str ''Full-time''),
              (''Age (Years)'', Num 38), (''Medical Insurance'', Str ''Yes'')])]\<rparr>"

section \<open>Properties\<close>

subsection \<open>The column normalizer\<close>

lemma flatten_loop_map: "flatten_loop cols acc = acc @ map flatten_column cols"
  by (induction cols arbitrary: acc) simp_all

lemma flatten_columns_map: "flatten_columns cols = map flatten_column cols"
  by (simp add: flatten_columns_def flatten_loop_map)

lemma kept_parts_filter_map: "kept_parts col = filter (\<lambda>s. s \<noteq> ''nan'') (map py_str col)"
  by (simp add: kept_parts_def filter_map comp_def)

lemma flatten_column_spec_joined:
  "flatten_column l =
     (case l of LTuple col \<Rightarrow> py_strip (spec_joined col)
              | LList col \<Rightarrow> py_strip (spec_joined col)
              | LPart x \<Rightarrow> py_strip (py_str x))"
  by (cases l) (simp_all add: spec_joined_def kept_parts_filter_map)

lemma kept_parts_all_nan: "\<forall>x\<in>set col. py_str x = ''nan'' \<Longrightarrow> kept_parts col = []"
  by (induction col) (simp_all add: kept_parts_def)

lemma py_strip_Nil: "py_strip [] = []"
  by (simp add: py_strip_def)

text \<open>
  C2, as stated, fails: the normalizer does not return the joined string itself. The
  tuple \<open>(" a", "b")\<close> joins to \<open>" a - b"\<close>, and the normalizer returns \<open>"a - b"\<close>.
\<close>

theorem flatten_columns_unstripped_counterexample:
  "flatten_columns [LTuple [PStr '' a'', PStr ''b'']] \<noteq> [spec_joined [PStr '' a'', PStr ''b'']]"
  by code_simp

text \<open>
  C2, amended: the normalizer returns one string per label; for a composite label
  (tuple or list) it is the string forms of the parts, without those equal to
  \<open>"nan"\<close>, joined with \<open>" - "\<close> and then trimmed of leading and trailing whitespace;
  for any other label it is the trimmed string form of the label.
\<close>

theorem flatten_columns_strip_joined:
  "length (flatten_columns cols) = length cols \<and>
   (\<forall>i < length cols. flatten_columns cols ! i =
      (case cols ! i of
         LTuple col \<Rightarrow> py_strip (spec_joined col)
       | LList col \<Rightarrow> py_strip (spec_joined col)
       | LPart x \<Rightarrow> py_strip (py_str x)))"
  by (simp add: flatten_columns_map flatten_column_spec_joined)

theorem flatten_columns_strip_joined_witness:
  "(0::nat) < length [LTuple [PStr '' a'', PNaN, PStr ''b ''], LPart (PInt 7)] \<and>
   flatten_columns [LTuple [PStr '' a'', PNaN, PStr ''b ''], LPart (PInt 7)] ! 0
     = py_strip (spec_joined [PStr '' a'', PNaN, PStr ''b '']) \<and>
   py_strip (spec_joined [PStr '' a'', PNaN, PStr ''b '']) = ''a - b''"
proof -
  have len: "(0::nat) < length [LTuple [PStr '' a'', PNaN, PStr ''b ''], LPart (PInt 7)]"
    by simp
  have val: "py_strip (spec_joined [PStr '' a'', PNaN, PStr ''b '']) = ''a - b''"
    by code_simp
  from flatten_columns_strip_joined [of "[LTuple [PStr '' a'', PNaN, PStr ''b ''], LPart (PInt 7)]"] len
  have "flatten_columns [LTuple [PStr '' a'', PNaN, PStr ''b ''], LPart (PInt 7)] ! 0
     = py_strip (spec_joined [PStr '' a'', PNaN, PStr ''b ''])"
    by simp
  with len val show ?thesis by simp
qed

text \<open>
  C6, as stated, fails: there is no fallback. For the tuple \<open>(nan, nan)\<close> every part
  is discarded and the normalizer returns the empty string, while the stringified
  original label is \<open>"(nan, nan)"\<close>.
\<close>

theorem flatten_columns_no_fallback_counterexample:
  "flatten_columns [LTuple [PNaN, PNaN]] \<noteq> [py_str_label (LTuple [PNaN, PNaN])]"
  by code_simp

text \<open>
  C6, amended: the normalizer returns a string for every label, without an error
  case; for a composite label of which every part has the string form \<open>"nan"\<close>
  (an empty composite) the string it returns is the empty string.
\<close>

theorem flatten_columns_empty_composite:
  "length (flatten_columns cols) = length cols \<and>
   ((\<forall>x\<in>set col. py_str x = ''nan'') \<longrightarrow>
      flatten_columns [LTuple col] = [''''] \<and> flatten_columns [LList col] = [''''])"
  by (simp add: flatten_columns_map kept_parts_all_nan py_strip_Nil)

theorem flatten_columns_empty_composite_witness:
  "py_str PNaN = ''nan'' \<and> py_str (PStr ''nan'') = ''nan'' \<and>
   flatten_columns [LTuple [PNaN, PStr ''nan'']] = [''''] \<and>
   py_str_label (LTuple [PNaN, PStr ''nan'']) = ''(nan, 'nan')''"
proof -
  have h: "\<forall>x\<in>set [PNaN, PStr ''nan'']. py_str x = ''nan''" by simp
  have s: "py_str_label (LTuple [PNaN, PStr ''nan'']) = ''(nan, 'nan')''" by code_simp
  from flatten_columns_empty_composite [of "[]" "[PNaN, PStr ''nan'']"] h
  have "flatten_columns [LTuple [PNaN, PStr ''nan'']] = ['''']" by blast
  with s show ?thesis by simp
qed

subsection \<open>The dataset loader\<close>

text \<open>
  After the load the script strips the column labels once more
  (\<^verbatim>\<open>df_all.columns = [str(c).strip() for c in df_all.columns]\<close>). The loader's labels
  are strings that are stripped already, and stripping twice is stripping once, so this
  statement leaves the loaded table as it is.
\<close>

lemma py_strip_idem: "py_strip (py_strip s) = py_strip s"
proof -
  define a where "a = dropWhile py_isspace s"
  define b where "b = rev (dropWhile py_isspace (rev a))"
  have b: "py_strip s = b" by (simp add: py_strip_def a_def b_def)
  have tail: "dropWhile py_isspace (rev b) = rev b"
    by (simp add: b_def)
  have "a = b @ rev (takeWhile py_isspace (rev a))"
  proof -
    have "rev (takeWhile py_isspace (rev a) @ dropWhile py_isspace (rev a)) = rev (rev a)"
      by (simp only: takeWhile_dropWhile_id)
    then show ?thesis by (simp only: rev_append rev_rev_ident b_def)
  qed
  then have hd: "b \<noteq> [] \<Longrightarrow> hd b = hd a \<and> a \<noteq> []"
    by (metis hd_append2 append_is_Nil_conv)
  have front: "dropWhile py_isspace b = b"
  proof (cases b)
    case Nil
    then show ?thesis by simp
  next
    case (Cons x xs)
    with hd have "x = hd a" "a \<noteq> []" by auto
    then have "\<not> py_isspace x" unfolding a_def by (metis hd_dropWhile)
    with Cons show ?thesis by simp
  qed
  show ?thesis
    unfolding b by (simp add: py_strip_def front tail)
qed

lemma named_frame_columns_stripped:
  "map py_strip (columns (named_frame raw)) = columns (named_frame raw)"
  by (simp add: named_frame_def Let_def clean_columns_def py_strip_idem)

lemma load_loop_frames:
  "\<forall>sh\<in>set shs. \<exists>df. sheet_frame sh = Inr df \<and> columns df = cols \<Longrightarrow>
   \<exists>dfs. load_loop shs acc = Inr (acc @ dfs) \<and> length dfs = length shs \<and>
         map (\<lambda>df. length (rows df)) dfs = map sheet_row_count shs \<and>
         (\<forall>d\<in>set dfs. columns d = cols)"
proof (induction shs arbitrary: acc)
  case Nil
  then show ?case by simp
next
  case (Cons sh shs)
  then obtain df where df: "sheet_frame sh = Inr df" "columns df = cols" by auto
  from Cons.prems have "\<forall>s\<in>set shs. \<exists>d. sheet_frame s = Inr d \<and> columns d = cols" by simp
  from Cons.IH [OF this, of "acc @ [df]"]
  obtain dfs where dfs: "load_loop shs (acc @ [df]) = Inr ((acc @ [df]) @ dfs)"
      "length dfs = length shs" "map (\<lambda>df. length (rows df)) dfs = map sheet_row_count shs"
      "\<forall>d\<in>set dfs. columns d = cols"
    by blast
  have "load_loop (sh # shs) acc = Inr (acc @ (df # dfs))"
    using df(1) dfs(1) by simp
  moreover have "length (df # dfs) = length (sh # shs)" using dfs(2) by simp
  moreover have "map (\<lambda>df. length (rows df)) (df # dfs) = map sheet_row_count (sh # shs)"
    using df(1) dfs(3) by (simp add: sheet_row_count_def)
  moreover have "\<forall>d\<in>set (df # dfs). columns d = cols"
    using df(2) dfs(4) by simp
  ultimately show ?case by blast
qed

lemma length_concat_rows:
  "length (concat (map (\<lambda>df. map snd (rows df)) dfs)) = sum_list (map (\<lambda>df. length (rows df)) dfs)"
  by (induction dfs) simp_all

lemma pd_concat_same_columns:
  assumes "dfs \<noteq> []" and "\<forall>d\<in>set dfs. columns d = cols"
  shows "\<exists>df. pd_concat dfs = Inr df \<and> columns df = cols
            \<and> length (rows df) = sum_list (map (\<lambda>df. length (rows df)) dfs)
            \<and> map fst (rows df) = [0..<length (rows df)]"
proof -
  from assms(1) obtain d ds where dfs: "dfs = d # ds" by (cases dfs) auto
  with assms(2) have same: "list_all (\<lambda>x. columns x = columns d) ds" and d: "columns d = cols"
    by (simp_all add: list_all_iff)
  let ?rs = "concat (map (\<lambda>x. map snd (rows x)) dfs)"
  have "pd_concat dfs = Inr \<lparr>columns = columns d, rows = zip [0..<length ?rs] ?rs\<rparr>"
    using same by (simp add: pd_concat_def dfs)
  moreover have "length ?rs = sum_list (map (\<lambda>df. length (rows df)) dfs)"
    by (rule length_concat_rows)
  ultimately show ?thesis using d by simp
qed

text \<open>
  When the labels differ and some sheet has a repeated label, the concatenation
  raises: the labels \<open>"a"\<close> and \<open>" a"\<close> of one sheet both normalize to \<open>"a"\<close>.
\<close>

lemma load_excel_any_repeated_label:
  "load_excel_any
     [\<lparr>read_header_012 = Inl ValueError,
       read_header_0 = Inr \<lparr>header = [LPart (PStr ''a''), LPart (PStr '' a'')], body = [[Num 1, Num 2]]\<rparr>\<rparr>,
      \<lparr>read_header_012 = Inl ValueError,
       read_header_0 = Inr \<lparr>header = [LPart (PStr ''a'')], body = [[Num 3]]\<rparr>\<rparr>]
   = Inl InvalidIndexError"
  by code_simp

text \<open>
  C3: when the workbook has a sheet, every sheet parses (with the three-row header or,
  failing that, with the one-row header) and all sheets have the same normalized
  column labels, the loader returns a table with these labels; its row count is the
  sum of the sheets' row counts and its index is 0, 1, 2, ... in row order.
\<close>

theorem load_excel_any_row_count:
  assumes "sheet_names \<noteq> []"
    and "\<forall>sh\<in>set sheet_names. \<exists>df. sheet_frame sh = Inr df \<and> columns df = cols"
  shows "\<exists>df_all. load_excel_any sheet_names = Inr df_all
           \<and> columns df_all = cols
           \<and> length (rows df_all) = sum_list (map sheet_row_count sheet_names)
           \<and> map fst (rows df_all) = [0..<length (rows df_all)]"
proof -
  from load_loop_frames [OF assms(2), of "[]"]
  obtain dfs where dfs: "load_loop sheet_names [] = Inr dfs" "length dfs = length sheet_names"
      "map (\<lambda>df. length (rows df)) dfs = map sheet_row_count sheet_names"
      "\<forall>d\<in>set dfs. columns d = cols"
    by auto
  from dfs(2) assms(1) have "dfs \<noteq> []" by auto
  from pd_concat_same_columns [OF this dfs(4)]
  obtain df where df: "pd_concat dfs = Inr df" "columns df = cols"
      "length (rows df) = sum_list (map (\<lambda>df. length (rows df)) dfs)"
      "map fst (rows df) = [0..<length (rows df)]"
    by blast
  have "load_excel_any sheet_names = Inr df"
    using dfs(1) df(1) by (simp add: load_excel_any_def)
  with df(2,3,4) dfs(3) show ?thesis by simp
qed

theorem load_excel_any_row_count_witness:
  "sheet_frame \<lparr>read_header_012 = Inl ValueError,
                read_header_0 = Inr \<lparr>header = [LPart (PStr ''Company'')], body = [[Str ''A''], [NaN]]\<rparr>\<rparr>
     = Inr \<lparr>columns = [''Company''], rows = [(0, [(''Company'', Str ''A'')]), (1, [(''Company'', NaN)])]\<rparr> \<and>
   sheet_frame \<lparr>read_header_012 = Inr \<lparr>header = [LTuple [PStr ''Company'', PNaN]], body = [[Str ''B'']]\<rparr>,
                read_header_0 = Inl ValueError\<rparr>
     = Inr \<lparr>columns = [''Company''], rows = [(0, [(''Company'', Str ''B'')])]\<rparr> \<and>
   (\<exists>df_all.
      load_excel_any
        [\<lparr>read_header_012 = Inl ValueError,
          read_header_0 = Inr \<lparr>header = [LPart (PStr ''Company'')], body = [[Str ''A''], [NaN]]\<rparr>\<rparr>,
         \<lparr>read_header_012 = Inr \<lparr>header = [LTuple [PStr ''Company'', PNaN]], body = [[Str ''B'']]\<rparr>,
          read_header_0 = Inl ValueError\<rparr>] = Inr df_all
      \<and> columns df_all = [''Company'']
      \<and> length (rows df_all) = 3 \<and> map fst (rows df_all) = [0, 1, 2])"
proof -
  let ?s1 = "\<lparr>read_header_012 = Inl ValueError,
              read_header_0 = Inr \<lparr>header = [LPart (PStr ''Company'')], body = [[Str ''A''], [NaN]]\<rparr>\<rparr>"
  let ?s2 = "\<lparr>read_header_012 = Inr \<lparr>header = [LTuple [PStr ''Company'', PNaN]], body = [[Str ''B'']]\<rparr>,
              read_header_0 = Inl ValueError\<rparr>"
  have p1: "sheet_frame ?s1
     = Inr \<lparr>columns = [''Company''], rows = [(0, [(''Company'', Str ''A'')]), (1, [(''Company'', NaN)])]\<rparr>"
    by code_simp
  have p2: "sheet_frame ?s2 = Inr \<lparr>columns = [''Company''], rows = [(0, [(''Company'', Str ''B'')])]\<rparr>"
    by code_simp
  have ne: "[?s1, ?s2] \<noteq> []" by simp
  have all: "\<forall>sh\<in>set [?s1, ?s2]. \<exists>df. sheet_frame sh = Inr df \<and> columns df = [''Company'']"
    using p1 p2 by simp
  have counts: "sum_list (map sheet_row_count [?s1, ?s2]) = 3"
    using p1 p2 by (simp add: sheet_row_count_def)
  from load_excel_any_row_count [OF ne all] counts
  obtain df_all where "load_excel_any [?s1, ?s2] = Inr df_all" "columns df_all = [''Company'']"
      "length (rows df_all) = 3" "map fst (rows df_all) = [0..<3]"
    by auto
  moreover have "[0..<3] = [0, 1, 2::nat]" by (simp add: upt_rec)
  ultimately have "\<exists>df_all. load_excel_any [?s1, ?s2] = Inr df_all
      \<and> columns df_all = [''Company'']
      \<and> length (rows df_all) = 3 \<and> map fst (rows df_all) = [0, 1, 2]"
    by auto
  with p1 p2 show ?thesis by blast
qed

subsection \<open>The global filters\<close>

lemma columns_select_rows: "columns (select_rows p df) = columns df"
  by (simp add: select_rows_def)

lemma rows_select_rows: "rows (select_rows p df) = filter (\<lambda>ir. p (snd ir)) (rows df)"
  by (simp add: select_rows_def)

lemma categorical_filters_rows:
  "categorical_filters ui df_all cs v = Inr v' \<Longrightarrow>
   columns v' = columns v \<and> (\<exists>P. rows v' = filter P (rows v))"
proof (induction cs arbitrary: v)
  case Nil
  then have "v' = v" by simp
  then show ?case by (auto intro: exI [of _ "\<lambda>_. True"])
next
  case (Cons c cs)
  show ?case
  proof (cases "c \<in> set (columns df_all)")
    case False
    with Cons.prems have "categorical_filters ui df_all cs v = Inr v'" by simp
    from Cons.IH [OF this] show ?thesis .
  next
    case True
    with Cons.prems obtain vals where vals: "sorted_values (series df_all c) = Inr vals"
      and rest: "categorical_filters ui df_all cs
                   (select_rows (\<lambda>r. cell_of r c \<in> set (multiselect ui c vals)) v) = Inr v'"
      by (auto split: sum.splits)
    from Cons.IH [OF rest] obtain P where
      "columns v' = columns v"
      "rows v' = filter P (filter (\<lambda>ir. cell_of (snd ir) c \<in> set (multiselect ui c vals)) (rows v))"
      by (auto simp: columns_select_rows rows_select_rows)
    then have "columns v' = columns v"
      "rows v' = filter (\<lambda>ir. cell_of (snd ir) c \<in> set (multiselect ui c vals) \<and> P ir) (rows v)"
      by simp_all
    then show ?thesis by blast
  qed
qed

lemma categorical_filters_selected:
  "categorical_filters ui df_all cs v = Inr v' \<Longrightarrow> c \<in> set cs \<Longrightarrow> c \<in> set (columns df_all) \<Longrightarrow>
   \<exists>vals. sorted_values (series df_all c) = Inr vals \<and>
          (\<forall>ir\<in>set (rows v'). cell_of (snd ir) c \<in> set (multiselect ui c vals))"
proof (induction cs arbitrary: v)
  case Nil
  then show ?case by simp
next
  case (Cons d cs)
  show ?case
  proof (cases "d \<in> set (columns df_all)")
    case False
    with Cons.prems have rest: "categorical_filters ui df_all cs v = Inr v'" and "c \<in> set cs"
      by auto
    from Cons.IH [OF rest \<open>c \<in> set cs\<close> Cons.prems(3)] show ?thesis .
  next
    case True
    with Cons.prems obtain vals where vals: "sorted_values (series df_all d) = Inr vals"
      and rest: "categorical_filters ui df_all cs
                   (select_rows (\<lambda>r. cell_of r d \<in> set (multiselect ui d vals)) v) = Inr v'"
      by (auto split: sum.splits)
    show ?thesis
    proof (cases "c = d")
      case True
      from categorical_filters_rows [OF rest] obtain P where
        "rows v' = filter P (filter (\<lambda>ir. cell_of (snd ir) d \<in> set (multiselect ui d vals)) (rows v))"
        by (auto simp: rows_select_rows)
      then have "\<forall>ir\<in>set (rows v'). cell_of (snd ir) d \<in> set (multiselect ui d vals)"
        by simp
      with vals True show ?thesis by blast
    next
      case False
      with Cons.prems have "c \<in> set cs" by simp
      from Cons.IH [OF rest this Cons.prems(3)] show ?thesis .
    qed
  qed
qed

lemma between_Num:
  "between left right v \<Longrightarrow> \<exists>x. v = Num x \<and> of_int left \<le> x \<and> x \<le> of_int right"
  by (cases v) simp_all

lemma age_filter_rows:
  "age_filter ui df_all v = Inr v' \<Longrightarrow> columns v' = columns v \<and> (\<exists>P. rows v' = filter P (rows v))"
proof (cases "age_column \<in> set (columns df_all)")
  case False
  assume "age_filter ui df_all v = Inr v'"
  with False have "v' = v" by (simp add: age_filter_def)
  then show ?thesis by (auto intro: exI [of _ "\<lambda>_. True"])
next
  case True
  assume "age_filter ui df_all v = Inr v'"
  with True obtain p where "v' = select_rows p v"
    by (auto simp: age_filter_def Let_def split: sum.splits prod.splits if_splits)
  then have "columns v' = columns v" "rows v' = filter (\<lambda>ir. p (snd ir)) (rows v)"
    by (simp_all add: columns_select_rows rows_select_rows)
  then show ?thesis by blast
qed

lemma age_filter_in_range:
  assumes "age_filter ui df_all v = Inr v'" and "age_column \<in> set (columns df_all)"
  shows "\<exists>min_age max_age. age_bounds df_all = Inr (min_age, max_age) \<and>
           (\<forall>ir\<in>set (rows v'). \<exists>x. cell_of (snd ir) age_column = Num x
               \<and> of_int (fst (slider ui min_age max_age)) \<le> x
               \<and> x \<le> of_int (snd (slider ui min_age max_age)))"
proof -
  from assms obtain min_age max_age where b: "age_bounds df_all = Inr (min_age, max_age)"
    and v': "v' = select_rows (\<lambda>r. between (fst (slider ui min_age max_age))
                                  (snd (slider ui min_age max_age)) (cell_of r age_column)) v"
    by (auto simp: age_filter_def Let_def split: sum.splits prod.splits if_splits)
  from v' have "\<forall>ir\<in>set (rows v'). between (fst (slider ui min_age max_age))
                   (snd (slider ui min_age max_age)) (cell_of (snd ir) age_column)"
    by (simp add: rows_select_rows)
  then have "\<forall>ir\<in>set (rows v'). \<exists>x. cell_of (snd ir) age_column = Num x
               \<and> of_int (fst (slider ui min_age max_age)) \<le> x
               \<and> x \<le> of_int (snd (slider ui min_age max_age))"
    using between_Num by blast
  with b show ?thesis by blast
qed

lemma global_filters_stages:
  "global_filters ui df_all = Inr df_view \<Longrightarrow>
   \<exists>v. categorical_filters ui df_all filter_columns df_all = Inr v \<and> age_filter ui df_all v = Inr df_view"
  by (auto simp: global_filters_def split: sum.splits)

text \<open>
  C1: whenever the sidebar block produces a view, whatever the widgets return, every
  row of the view is a row of the table; for each of the three filter columns that
  the table has, every row's value is in the selection made from that column's
  options; when the table has the age column, every row's age is a number within the
  selected range, ends included; the view has at most as many rows as the table, and
  the same columns.
\<close>

theorem global_filters_view:
  assumes "global_filters ui df_all = Inr df_view"
  shows "set (rows df_view) \<subseteq> set (rows df_all)
     \<and> (\<forall>c\<in>set filter_columns. c \<in> set (columns df_all) \<longrightarrow>
          (\<exists>vals. sorted_values (series df_all c) = Inr vals \<and>
             (\<forall>ir\<in>set (rows df_view). cell_of (snd ir) c \<in> set (multiselect ui c vals))))
     \<and> (age_column \<in> set (columns df_all) \<longrightarrow>
          (\<exists>min_age max_age. age_bounds df_all = Inr (min_age, max_age) \<and>
             (\<forall>ir\<in>set (rows df_view). \<exists>x. cell_of (snd ir) age_column = Num x
                 \<and> of_int (fst (slider ui min_age max_age)) \<le> x
                 \<and> x \<le> of_int (snd (slider ui min_age max_age)))))
     \<and> length (rows df_view) \<le> length (rows df_all)
     \<and> columns df_view = columns df_all"
proof -
  from global_filters_stages [OF assms] obtain v where
    cat: "categorical_filters ui df_all filter_columns df_all = Inr v"
    and age: "age_filter ui df_all v = Inr df_view"
    by blast
  from categorical_filters_rows [OF cat] obtain P where
    cv: "columns v = columns df_all" and rv: "rows v = filter P (rows df_all)"
    by blast
  from age_filter_rows [OF age] obtain Q where
    cw: "columns df_view = columns v" and rw: "rows df_view = filter Q (rows v)"
    by blast
  have sub: "set (rows df_view) \<subseteq> set (rows v)" using rw by auto
  have "set (rows df_view) \<subseteq> set (rows df_all)" using rv rw by auto
  moreover have "\<forall>c\<in>set filter_columns. c \<in> set (columns df_all) \<longrightarrow>
          (\<exists>vals. sorted_values (series df_all c) = Inr vals \<and>
             (\<forall>ir\<in>set (rows df_view). cell_of (snd ir) c \<in> set (multiselect ui c vals)))"
  proof (intro ballI impI)
    fix c assume "c \<in> set filter_columns" "c \<in> set (columns df_all)"
    from categorical_filters_selected [OF cat this] obtain vals where
      "sorted_values (series df_all c) = Inr vals"
      "\<forall>ir\<in>set (rows v). cell_of (snd ir) c \<in> set (multiselect ui c vals)"
      by blast
    with sub show "\<exists>vals. sorted_values (series df_all c) = Inr vals \<and>
             (\<forall>ir\<in>set (rows df_view). cell_of (snd ir) c \<in> set (multiselect ui c vals))"
      by blast
  qed
  moreover have "age_column \<in> set (columns df_all) \<longrightarrow>
          (\<exists>min_age max_age. age_bounds df_all = Inr (min_age, max_age) \<and>
             (\<forall>ir\<in>set (rows df_view). \<exists>x. cell_of (snd ir) age_column = Num x
                 \<and> of_int (fst (slider ui min_age max_age)) \<le> x
                 \<and> x \<le> of_int (snd (slider ui min_age max_age))))"
    using age_filter_in_range [OF age] by blast
  moreover have "length (rows df_view) \<le> length (rows df_all)"
  proof -
    have "length (rows df_view) \<le> length (rows v)" using rw by simp
    also have "\<dots> \<le> length (rows df_all)" using rv by simp
    finally show ?thesis .
  qed
  moreover have "columns df_view = columns df_all" using cv cw by simp
  ultimately show ?thesis by blast
qed

theorem global_filters_view_witness:
  "global_filters
     \<lparr>multiselect = (\<lambda>c vals. if c = ''Company'' then [Str ''A''] else vals),
      slider = (\<lambda>min_age max_age. (25, 40))\<rparr> survey_table
     = Inr (survey_table\<lparr>rows := [rows survey_table ! 0, rows survey_table ! 3]\<rparr>) \<and>
   ''Company'' \<in> set filter_columns \<and> ''Company'' \<in> set (columns survey_table) \<and>
   age_column \<in> set (columns survey_table) \<and>
   set [rows survey_table ! 0, rows survey_table ! 3] \<subseteq> set (rows survey_table) \<and>
   length [rows survey_table ! 0, rows survey_table ! 3] \<le> length (rows survey_table) \<and>
   (\<exists>vals. sorted_values (series survey_table ''Company'') = Inr vals \<and>
      cell_of (snd (rows survey_table ! 0)) ''Company'' \<in> set [Str ''A''] \<and>
      cell_of (snd (rows survey_table ! 3)) ''Company'' \<in> set [Str ''A'']) \<and>
   (\<exists>x. cell_of (snd (rows survey_table ! 3)) age_column = Num x \<and> 25 \<le> x \<and> x \<le> 40)"
proof -
  let ?ui = "\<lparr>multiselect = (\<lambda>c vals. if c = ''Company'' then [Str ''A''] else vals),
              slider = (\<lambda>min_age max_age. (25, 40))\<rparr>"
  let ?v = "survey_table\<lparr>rows := [rows survey_table ! 0, rows survey_table ! 3]\<rparr>"
  have run: "global_filters ?ui survey_table = Inr ?v"
    by code_simp
  have c: "''Company'' \<in> set filter_columns" by (simp add: filter_columns_def)
  have col: "''Company'' \<in> set (columns survey_table)" by (simp add: survey_table_def)
  have age: "age_column \<in> set (columns survey_table)" by (simp add: survey_table_def age_column_def)
  note view = global_filters_view [OF run]
  from view have sub: "set (rows ?v) \<subseteq> set (rows survey_table)"
    and len: "length (rows ?v) \<le> length (rows survey_table)"
    by blast+
  from view c col obtain vals where
    vals: "sorted_values (series survey_table ''Company'') = Inr vals"
    and sel: "\<forall>ir\<in>set (rows ?v). cell_of (snd ir) ''Company'' \<in> set (multiselect ?ui ''Company'' vals)"
    by blast
  from sel have sel': "cell_of (snd (rows survey_table ! 0)) ''Company'' \<in> set [Str ''A'']"
      "cell_of (snd (rows survey_table ! 3)) ''Company'' \<in> set [Str ''A'']"
    by simp_all
  from view age obtain min_age max_age where
    "\<forall>ir\<in>set (rows ?v). \<exists>x. cell_of (snd ir) age_column = Num x
        \<and> of_int (fst (slider ?ui min_age max_age)) \<le> x
        \<and> x \<le> of_int (snd (slider ?ui min_age max_age))"
    by blast
  then have rng: "\<exists>x. cell_of (snd (rows survey_table ! 3)) age_column = Num x \<and> 25 \<le> x \<and> x \<le> 40"
    by simp
  from vals sel' have "\<exists>vals. sorted_values (series survey_table ''Company'') = Inr vals \<and>
      cell_of (snd (rows survey_table ! 0)) ''Company'' \<in> set [Str ''A''] \<and>
      cell_of (snd (rows survey_table ! 3)) ''Company'' \<in> set [Str ''A'']"
    by blast
  with run c col age sub len rng show ?thesis by simp
qed

lemma set_unique: "set (unique xs) = set xs"
  by (simp add: unique_def)

lemma distinct_unique: "distinct (unique xs)"
  by (simp add: unique_def)

lemma set_nums: "set [x. Num x \<leftarrow> vs] = {x. Num x \<in> set vs}"
  by (induction vs) (auto split: cell.splits)

lemma set_strs: "set [x. Str x \<leftarrow> vs] = {x. Str x \<in> set vs}"
  by (induction vs) (auto split: cell.splits)

lemma distinct_nums: "distinct vs \<Longrightarrow> distinct [x. Num x \<leftarrow> vs]"
  by (induction vs) (auto simp: set_nums split: cell.splits)

lemma distinct_strs: "distinct vs \<Longrightarrow> distinct [x. Str x \<leftarrow> vs]"
  by (induction vs) (auto simp: set_strs split: cell.splits)

lemma sorted_values_options:
  assumes "sorted_values s = Inr vals"
  shows "set vals = set s - {NaN} \<and> distinct vals"
proof -
  define vs where "vs = unique (dropna s)"
  have vs_set: "set vs = set s - {NaN}"
    by (auto simp: vs_def set_unique dropna_def)
  have vs_dist: "distinct vs"
    by (simp add: vs_def distinct_unique)
  have kinds: "v \<in> set vs \<Longrightarrow> (\<exists>x. v = Str x) \<or> (\<exists>x. v = Num x)" for v
    using vs_set by (cases v) auto
  define strs where "strs = [x. Str x \<leftarrow> vs]"
  define nums where "nums = [x. Num x \<leftarrow> vs]"
  have strs_set: "set strs = {x. Str x \<in> set vs}" and strs_dist: "distinct strs"
    unfolding strs_def by (rule set_strs, rule distinct_strs [OF vs_dist])
  have nums_set: "set nums = {x. Num x \<in> set vs}" and nums_dist: "distinct nums"
    unfolding nums_def by (rule set_nums, rule distinct_nums [OF vs_dist])
  have run: "sorted_values s =
      (if strs = [] then Inr (map Num (sort nums))
       else if nums = [] then Inr (map Str (sort strs))
       else Inl TypeError)"
    by (simp add: sorted_values_def Let_def vs_def strs_def nums_def)
  show ?thesis
  proof (cases "strs = []")
    case True
    with assms run have vals: "vals = map Num (sort nums)" by simp
    from True strs_set have no_str: "\<And>x. Str x \<notin> set vs" by auto
    have "set vs = Num ` {x. Num x \<in> set vs}"
    proof (intro set_eqI iffI)
      fix v assume v: "v \<in> set vs"
      with kinds [OF v] no_str obtain x where "v = Num x" by blast
      with v show "v \<in> Num ` {x. Num x \<in> set vs}" by blast
    next
      fix v assume "v \<in> Num ` {x. Num x \<in> set vs}"
      then show "v \<in> set vs" by blast
    qed
    then have "set vals = set vs" by (simp add: vals nums_set)
    moreover have "distinct vals"
      by (simp add: vals distinct_map nums_dist inj_on_def)
    ultimately show ?thesis using vs_set by simp
  next
    case False
    with assms run have nums: "nums = []" and vals: "vals = map Str (sort strs)"
      by (auto split: if_splits)
    from nums nums_set have no_num: "\<And>x. Num x \<notin> set vs" by auto
    have "set vs = Str ` {x. Str x \<in> set vs}"
    proof (intro set_eqI iffI)
      fix v assume v: "v \<in> set vs"
      with kinds [OF v] no_num obtain x where "v = Str x" by blast
      with v show "v \<in> Str ` {x. Str x \<in> set vs}" by blast
    next
      fix v assume "v \<in> Str ` {x. Str x \<in> set vs}"
      then show "v \<in> set vs" by blast
    qed
    then have "set vals = set vs" by (simp add: vals strs_set)
    moreover have "distinct vals"
      by (simp add: vals distinct_map strs_dist inj_on_def)
    ultimately show ?thesis using vs_set by simp
  qed
qed

text \<open>
  C9: for each of the three filter columns that the table has, the offered options
  are the column's distinct non-missing values; with every widget at its default, no
  row of the view is missing a value in that column, so a table that has such a row
  is not returned unchanged.
\<close>

theorem default_selection_drops_missing:
  assumes "c \<in> set filter_columns" and "c \<in> set (columns df_all)"
    and "global_filters default_widgets df_all = Inr df_view"
  shows "(\<exists>vals. sorted_values (series df_all c) = Inr vals
            \<and> multiselect default_widgets c vals = vals
            \<and> set vals = set (series df_all c) - {NaN} \<and> distinct vals)
     \<and> (\<forall>ir\<in>set (rows df_view). cell_of (snd ir) c \<noteq> NaN)
     \<and> ((\<exists>ir\<in>set (rows df_all). cell_of (snd ir) c = NaN) \<longrightarrow> rows df_view \<noteq> rows df_all)"
proof -
  from global_filters_stages [OF assms(3)] obtain v where
    cat: "categorical_filters default_widgets df_all filter_columns df_all = Inr v"
    and age: "age_filter default_widgets df_all v = Inr df_view"
    by blast
  from categorical_filters_selected [OF cat assms(1,2)] obtain vals where
    vals: "sorted_values (series df_all c) = Inr vals"
    and sel: "\<forall>ir\<in>set (rows v). cell_of (snd ir) c \<in> set (multiselect default_widgets c vals)"
    by blast
  have dflt: "multiselect default_widgets c vals = vals"
    by (simp add: default_widgets_def)
  from sorted_values_options [OF vals]
  have opts: "set vals = set (series df_all c) - {NaN}" "distinct vals" by simp_all
  from age_filter_rows [OF age] obtain Q where "rows df_view = filter Q (rows v)" by blast
  then have "set (rows df_view) \<subseteq> set (rows v)" by auto
  with sel dflt opts(1) have kept: "\<forall>ir\<in>set (rows df_view). cell_of (snd ir) c \<noteq> NaN"
    by auto
  then have "(\<exists>ir\<in>set (rows df_all). cell_of (snd ir) c = NaN) \<longrightarrow> rows df_view \<noteq> rows df_all"
    by auto
  with vals dflt opts kept show ?thesis by blast
qed

theorem default_selection_drops_missing_witness:
  "''Company'' \<in> set filter_columns \<and> ''Company'' \<in> set (columns survey_table) \<and>
   global_filters default_widgets survey_table
     = Inr (survey_table\<lparr>rows := [rows survey_table ! 0, rows survey_table ! 1, rows survey_table ! 3]\<rparr>) \<and>
   cell_of (snd (rows survey_table ! 2)) ''Company'' = NaN \<and>
   [rows survey_table ! 0, rows survey_table ! 1, rows survey_table ! 3] \<noteq> rows survey_table"
proof -
  let ?v = "survey_table\<lparr>rows := [rows survey_table ! 0, rows survey_table ! 1, rows survey_table ! 3]\<rparr>"
  have c: "''Company'' \<in> set filter_columns" by (simp add: filter_columns_def)
  have col: "''Company'' \<in> set (columns survey_table)" by (simp add: survey_table_def)
  have run: "global_filters default_widgets survey_table = Inr ?v" by code_simp
  have missing: "cell_of (snd (rows survey_table ! 2)) ''Company'' = NaN" by code_simp
  have "rows survey_table ! 2 \<in> set (rows survey_table)" by (simp add: survey_table_def)
  with missing have ex: "\<exists>ir\<in>set (rows survey_table). cell_of (snd ir) ''Company'' = NaN" by blast
  from default_selection_drops_missing [OF c col run] ex
  have "rows ?v \<noteq> rows survey_table" by blast
  with c col run missing show ?thesis by simp
qed

subsection \<open>The key metrics\<close>

lemma series_Nil_iff: "series df c = [] \<longleftrightarrow> rows df = []"
  by (simp add: series_def)

lemma length_series: "length (series df c) = length (rows df)"
  by (simp add: series_def)

lemma count_yes_series:
  "length (filter (\<lambda>v. v = Str ''Yes'') (series df c))
     = length (filter (\<lambda>ir. cell_of (snd ir) c = Str ''Yes'') (rows df))"
  by (simp add: series_def filter_map comp_def)

lemma dropna_all_missing: "\<forall>v\<in>set s. v = NaN \<Longrightarrow> dropna s = []"
  by (induction s) (simp_all add: dropna_def)

lemma series_mode_all_missing: "\<forall>v\<in>set s. v = NaN \<Longrightarrow> series_mode s = []"
  by (simp add: series_mode_def dropna_all_missing unique_def)

text \<open>
  C7: on a view without rows that has the employment-status column, the metric is the
  sentinel \<open>"N/A"\<close>, and no exception is raised.
\<close>

theorem empty_view_employment_sentinel:
  assumes "rows df_view = []" and "''Employment Status'' \<in> set (columns df_view)"
  shows "employment_mode df_view = Inr (Str ''N/A'')
     \<and> most_common_employment df_view = Inr [(''Most Common Employment'', Plain (Str ''N/A''))]"
proof -
  from assms(1) have "series df_view ''Employment Status'' = []"
    by (simp add: series_Nil_iff)
  then have "employment_mode df_view = Inr (Str ''N/A'')"
    by (simp add: employment_mode_def)
  with assms(2) show ?thesis
    by (simp add: most_common_employment_def)
qed

theorem empty_view_employment_sentinel_witness:
  "rows (survey_table\<lparr>rows := []\<rparr>) = [] \<and>
   ''Employment Status'' \<in> set (columns (survey_table\<lparr>rows := []\<rparr>)) \<and>
   most_common_employment (survey_table\<lparr>rows := []\<rparr>)
     = Inr [(''Most Common Employment'', Plain (Str ''N/A''))]"
proof -
  have e: "rows (survey_table\<lparr>rows := []\<rparr>) = []" by simp
  have c: "''Employment Status'' \<in> set (columns (survey_table\<lparr>rows := []\<rparr>))"
    by (simp add: survey_table_def)
  from empty_view_employment_sentinel [OF e c] e c show ?thesis by blast
qed

text \<open>
  C8: on a view with rows that has the medical-insurance column, the metric is 100
  times the number of rows whose value there is the string \<open>"Yes"\<close>, divided by the
  number of rows; with three such rows out of four it is 75. (On a view without rows
  the metric is NaN.)
\<close>

theorem insurance_percentage:
  assumes "''Medical Insurance'' \<in> set (columns df_view)" and "rows df_view \<noteq> []"
  shows "pct_insurance df_view =
           Inr [(''% with Medical Insurance'',
                 Percent1 (Some (100 * of_nat (length (filter (\<lambda>ir. cell_of (snd ir) ''Medical Insurance'' = Str ''Yes'')
                                                          (rows df_view)))
                                  / of_nat (length (rows df_view)))))]
     \<and> (length (rows df_view) = 4
          \<and> length (filter (\<lambda>ir. cell_of (snd ir) ''Medical Insurance'' = Str ''Yes'') (rows df_view)) = 3
        \<longrightarrow> pct_insurance df_view = Inr [(''% with Medical Insurance'', Percent1 (Some 75))])"
proof -
  from assms(2) have ne: "series df_view ''Medical Insurance'' \<noteq> []"
    by (simp add: series_Nil_iff)
  have "pct_insurance df_view =
           Inr [(''% with Medical Insurance'',
                 Percent1 (Some (100 * of_nat (length (filter (\<lambda>ir. cell_of (snd ir) ''Medical Insurance'' = Str ''Yes'')
                                                          (rows df_view)))
                                  / of_nat (length (rows df_view)))))]"
    using assms(1) ne
    by (simp add: pct_insurance_def yes_percentage_def count_yes_series length_series)
  then show ?thesis by simp
qed

theorem insurance_percentage_witness:
  "''Medical Insurance'' \<in> set (columns survey_table) \<and> rows survey_table \<noteq> [] \<and>
   length (rows survey_table) = 4 \<and>
   length (filter (\<lambda>ir. cell_of (snd ir) ''Medical Insurance'' = Str ''Yes'') (rows survey_table)) = 3 \<and>
   pct_insurance survey_table = Inr [(''% with Medical Insurance'', Percent1 (Some 75))]"
proof -
  have c: "''Medical Insurance'' \<in> set (columns survey_table)" by (simp add: survey_table_def)
  have ne: "rows survey_table \<noteq> []" by (simp add: survey_table_def)
  have n: "length (rows survey_table) = 4" by (simp add: survey_table_def)
  have y: "length (filter (\<lambda>ir. cell_of (snd ir) ''Medical Insurance'' = Str ''Yes'') (rows survey_table)) = 3"
    by code_simp
  from insurance_percentage [OF c ne] n y
  have "pct_insurance survey_table = Inr [(''% with Medical Insurance'', Percent1 (Some 75))]"
    by blast
  with c ne n y show ?thesis by blast
qed





text \<open>
  Taken by itself, the statement of line 103 raises on a table that has rows whose
  employment status is missing throughout.
\<close>

lemma employment_mode_all_missing:
  assumes "rows df \<noteq> []" and "\<forall>ir\<in>set (rows df). cell_of (snd ir) ''Employment Status'' = NaN"
  shows "employment_mode df = Inl KeyError"
proof -
  from assms(1) have ne: "series df ''Employment Status'' \<noteq> []"
    by (simp add: series_Nil_iff)
  from assms(2) have "\<forall>v\<in>set (series df ''Employment Status''). v = NaN"
    by (auto simp: series_def)
  then have "series_mode (series df ''Employment Status'') = []"
    by (rule series_mode_all_missing)
  with ne show ?thesis by (simp add: employment_mode_def item0_def)
qed





subsection \<open>The charts and the PDF export\<close>

lemma and_then_assoc: "and_then (and_then a b) c = and_then a (and_then b c)"
  by (simp add: and_then_def split: sum.splits)

lemma kpi_metrics_pdf_kpis:
  "kpi_metrics df_view = and_then (pdf_kpis df_view) (most_common_employment df_view)"
  by (simp add: kpi_metrics_def pdf_kpis_def and_then_assoc)

lemma and_then_Inr: "and_then (Inr xs) b = (case b of Inl e \<Rightarrow> Inl e | Inr ys \<Rightarrow> Inr (xs @ ys))"
  by (simp add: and_then_def)

text \<open>
  The four charts before the expense chart never raise: each reads only the columns
  its guard has checked.
\<close>

lemma guarded_charts:
  "\<exists>cs. and_then (pie_chart df_view)
          (and_then (deliveries_chart df_view)
            (and_then (age_chart df_view) (income_chart df_view))) = Inr cs"
  by (simp add: pie_chart_def deliveries_chart_def age_chart_def income_chart_def and_then_def)

text \<open>
  As far as reading columns goes (the figures themselves, and what plotly or the
  mean of a non-numeric column may raise, are not modelled), the chart block raises
  exactly when the guard of the expense chart holds and one of the four expense
  columns is not a column of the view.
\<close>

lemma visual_analytics_raises_iff:
  "(\<exists>e. visual_analytics df_view = Inl e) \<longleftrightarrow>
     ''Fuel Expenses (EGP)'' \<in> set (columns df_view) \<and> ''Company'' \<in> set (columns df_view)
     \<and> \<not> list_all (\<lambda>c. c \<in> set (columns df_view)) expense_columns"
proof -
  have "visual_analytics df_view =
      and_then (and_then (pie_chart df_view)
          (and_then (deliveries_chart df_view)
            (and_then (age_chart df_view) (income_chart df_view)))) (expenses_chart df_view)"
    by (simp add: visual_analytics_def and_then_assoc)
  moreover obtain cs where "and_then (pie_chart df_view)
          (and_then (deliveries_chart df_view)
            (and_then (age_chart df_view) (income_chart df_view))) = Inr cs"
    using guarded_charts by blast
  ultimately have "visual_analytics df_view =
      (case expenses_chart df_view of Inl e \<Rightarrow> Inl e | Inr ys \<Rightarrow> Inr (cs @ ys))"
    by (simp add: and_then_Inr)
  then show ?thesis
    by (auto simp: expenses_chart_def split: if_splits)
qed

text \<open>
  C4 does not hold of the code. A view that has the columns \<open>Company\<close> and
  \<open>Fuel Expenses (EGP)\<close> but not the other three expense columns passes the guard of
  the expense chart, and selecting the four columns raises a KeyError: the chart is
  neither built nor omitted, and the charts built before it are lost with it.
\<close>

theorem visual_analytics_missing_expense_column:
  "visual_analytics
     \<lparr>columns = [''Company'', ''Fuel Expenses (EGP)''],
      rows = [(0, [(''Company'', Str ''A''), (''Fuel Expenses (EGP)'', Num 120)])]\<rparr>
   = Inl KeyError"
  by code_simp

text \<open>
  C5 does not hold of the code. The metric paragraphs of the export are the first
  three metrics of the panel; the most common employment status, which the panel shows
  whenever the view has the column, is not among them. This is so on the example
  table and on the view that the filter block returns for it with every widget at its
  default.
\<close>

theorem pdf_kpis_without_employment:
  "kpi_metrics survey_table
     = Inr [(''% with Medical Insurance'', Percent1 (Some 75)),
            (''Most Common Employment'', Plain (Str ''Full-time''))] \<and>
   pdf_kpis survey_table = Inr [(''% with Medical Insurance'', Percent1 (Some 75))] \<and>
   global_filters default_widgets survey_table
     = Inr (survey_table\<lparr>rows := [rows survey_table ! 0, rows survey_table ! 1, rows survey_table ! 3]\<rparr>) \<and>
   kpi_metrics (survey_table\<lparr>rows := [rows survey_table ! 0, rows survey_table ! 1, rows survey_table ! 3]\<rparr>)
     = Inr [(''% with Medical Insurance'', Percent1 (Some 100)),
            (''Most Common Employment'', Plain (Str ''Full-time''))] \<and>
   pdf_kpis (survey_table\<lparr>rows := [rows survey_table ! 0, rows survey_table ! 1, rows survey_table ! 3]\<rparr>)
     = Inr [(''% with Medical Insurance'', Percent1 (Some 100))]"
  by code_simp

end
